theory Spec2Isabelle
  imports Complex_Main "HOL-Library.Word"
begin

section \<open>JavaScript values\<close>

text \<open>
  A JavaScript string is a sequence of UTF-16 code units. String literals of the source
  are ASCII and are written with \<open>u16\<close>.
\<close>

type_synonym jsstring = "16 word list"

definition u16 :: "string \<Rightarrow> jsstring" where
  "u16 s = map (\<lambda>c. of_nat (of_char c)) s"

text \<open>
  Numbers: \<open>NaN\<close>, the two infinities, and the finite values, carried by their
  mathematical value (every finite double is a real; the two zeros are not told apart,
  and the rounding of arithmetic results is not reproduced).
\<close>

datatype jsnum = NaN | NegInf | Fin real | PosInf

text \<open>
  The values that reach the program: what \<open>JSON.parse\<close>, the query-string parser and the
  database driver deliver, and \<open>undefined\<close>. A \<open>Date\<close> carries its time value in
  milliseconds, \<open>None\<close> for an invalid date. An object is the list of its own
  properties in insertion order; the first binding of a key is its value.
\<close>

datatype jsval =
    JUndefined
  | JNull
  | JBool bool
  | JNum jsnum
  | JStr jsstring
  | JDate "int option"
  | JArr "jsval list"
  | JObj "(jsstring \<times> jsval) list"

type_synonym jsobj = "(jsstring \<times> jsval) list"

text \<open>\<open>!!v\<close>: the falsy values are undefined, null, false, 0, NaN and the empty string.\<close>

fun truthy :: "jsval \<Rightarrow> bool" where
  "truthy JUndefined = False"
| "truthy JNull = False"
| "truthy (JBool b) = b"
| "truthy (JNum n) = (n \<noteq> NaN \<and> n \<noteq> Fin 0)"
| "truthy (JStr s) = (s \<noteq> [])"
| "truthy (JDate t) = True"
| "truthy (JArr xs) = True"
| "truthy (JObj kvs) = True"

text \<open>\<open>a || b\<close> and \<open>a && b\<close> on values.\<close>

definition js_or :: "jsval \<Rightarrow> jsval \<Rightarrow> jsval" where
  "js_or a b = (if truthy a then a else b)"

definition js_and :: "jsval \<Rightarrow> jsval \<Rightarrow> jsval" where
  "js_and a b = (if truthy a then b else a)"

text \<open>
  Reading an own property of an object, \<open>undefined\<close> when it has none. The program
  reads only fixed data keys (\<open>id\<close>, \<open>title\<close>, \<open>category\<close>, ...), none of which is
  inherited from a prototype, so reading one from a string, a number, an array or a date
  gives \<open>undefined\<close> as well. Reading from \<open>null\<close> or \<open>undefined\<close> throws; the callers
  below test for that first.
\<close>

definition lookup :: "jsobj \<Rightarrow> jsstring \<Rightarrow> jsval" where
  "lookup kvs k = (case map_of kvs k of Some v \<Rightarrow> v | None \<Rightarrow> JUndefined)"

definition get_prop :: "jsval \<Rightarrow> string \<Rightarrow> jsval" where
  "get_prop v k = (case v of JObj kvs \<Rightarrow> lookup kvs (u16 k) | _ \<Rightarrow> JUndefined)"

definition nullish :: "jsval \<Rightarrow> bool" where
  "nullish v = (v = JUndefined \<or> v = JNull)"

definition has_key :: "jsval \<Rightarrow> string \<Rightarrow> bool" where
  "has_key v k = (case v of JObj kvs \<Rightarrow> u16 k \<in> set (map fst kvs) | _ \<Rightarrow> False)"

text \<open>\<open>[a, b, ...].includes(v)\<close> for an array of string literals.\<close>

definition js_includes :: "string list \<Rightarrow> jsval \<Rightarrow> bool" where
  "js_includes allowed v = (v \<in> set (map (\<lambda>s. JStr (u16 s)) allowed))"

subsection \<open>Number operations\<close>

text \<open>\<open>a <= b\<close> on numbers: false as soon as one side is \<open>NaN\<close>.\<close>

fun num_le :: "jsnum \<Rightarrow> jsnum \<Rightarrow> bool" where
  "num_le NaN b = False"
| "num_le a NaN = False"
| "num_le NegInf b = True"
| "num_le a PosInf = True"
| "num_le (Fin x) (Fin y) = (x \<le> y)"
| "num_le a b = False"

definition Math_max :: "jsnum \<Rightarrow> jsnum \<Rightarrow> jsnum" where
  "Math_max a b = (if a = NaN \<or> b = NaN then NaN else if num_le a b then b else a)"

definition Math_min :: "jsnum \<Rightarrow> jsnum \<Rightarrow> jsnum" where
  "Math_min a b = (if a = NaN \<or> b = NaN then NaN else if num_le a b then a else b)"

fun num_neg :: "jsnum \<Rightarrow> jsnum" where
  "num_neg NaN = NaN"
| "num_neg NegInf = PosInf"
| "num_neg PosInf = NegInf"
| "num_neg (Fin x) = Fin (- x)"

fun num_add :: "jsnum \<Rightarrow> jsnum \<Rightarrow> jsnum" where
  "num_add NaN b = NaN"
| "num_add a NaN = NaN"
| "num_add (Fin x) (Fin y) = Fin (x + y)"
| "num_add PosInf NegInf = NaN"
| "num_add NegInf PosInf = NaN"
| "num_add (Fin x) b = b"
| "num_add a b = a"

definition num_sub :: "jsnum \<Rightarrow> jsnum \<Rightarrow> jsnum" where
  "num_sub a b = num_add a (num_neg b)"

fun num_sgn :: "jsnum \<Rightarrow> int" where
  "num_sgn NaN = 0"
| "num_sgn NegInf = - 1"
| "num_sgn PosInf = 1"
| "num_sgn (Fin x) = (if x < 0 then - 1 else if x = 0 then 0 else 1)"

fun num_mul :: "jsnum \<Rightarrow> jsnum \<Rightarrow> jsnum" where
  "num_mul NaN b = NaN"
| "num_mul a NaN = NaN"
| "num_mul (Fin x) (Fin y) = Fin (x * y)"
| "num_mul a b =
     (if num_sgn a * num_sgn b = 0 then NaN
      else if num_sgn a * num_sgn b < 0 then NegInf else PosInf)"

subsection \<open>Built-ins of the runtime\<close>

text \<open>
  The built-ins whose results depend on number formatting, decimal parsing, date
  parsing or Unicode tables are parameters of the model: a theorem stated for every
  \<open>rt\<close> holds whatever they return. \<open>parseInt10 v\<close> is \<open>parseInt(v, 10)\<close>,
  \<open>parseIntAuto v\<close> is \<open>parseInt(v)\<close>, \<open>newDate v\<close> is \<open>new Date(v)\<close> for a value
  that is not a \<open>Date\<close>. The parsers return a number for every value: the objects
  are plain data, whose conversion to a string does not throw. \<open>new Date\<close> may
  throw; \<open>toISO\<close> catches it.
\<close>

datatype date_result = Throws | DateObj "int option"

record js_runtime =
  parseInt10 :: "jsval \<Rightarrow> jsnum"
  parseIntAuto :: "jsval \<Rightarrow> jsnum"
  parseFloat :: "jsval \<Rightarrow> jsnum"
  newDate :: "jsval \<Rightarrow> date_result"
  toISOString :: "int \<Rightarrow> jsstring"
  toLowerCase :: "jsstring \<Rightarrow> jsstring"

section \<open>transformers/index.js\<close>

subsection \<open>String transformers\<close>

text \<open>
  \<open>String.prototype.trim\<close> removes the code units of WhiteSpace and LineTerminator
  from both ends.
\<close>

definition is_ws :: "16 word \<Rightarrow> bool" where
  "is_ws c = ((0x09 \<le> c \<and> c \<le> 0x0D) \<or> c = 0x20 \<or> c = 0xA0 \<or> c = 0x1680
     \<or> (0x2000 \<le> c \<and> c \<le> 0x200A) \<or> c = 0x2028 \<or> c = 0x2029 \<or> c = 0x202F
     \<or> c = 0x205F \<or> c = 0x3000 \<or> c = 0xFEFF)"

definition trim :: "jsstring \<Rightarrow> jsstring" where
  "trim s = rev (dropWhile is_ws (rev (dropWhile is_ws s)))"

text \<open>The character class \<open>[\x00-\x08\x0B-\x0C\x0E-\x1F\x7F]\<close>.\<close>

definition is_ctl :: "16 word \<Rightarrow> bool" where
  "is_ctl c = (c \<le> 0x08 \<or> (0x0B \<le> c \<and> c \<le> 0x0C) \<or> (0x0E \<le> c \<and> c \<le> 0x1F) \<or> c = 0x7F)"

text \<open>
  \<^verbatim>\<open>sanitize: (str) => {
    if (typeof str !== 'string') return '';
    return str.trim().replace(/[\x00-\x08\x0B-\x0C\x0E-\x1F\x7F]/g, '');
  }\<close>
\<close>

definition sanitize :: "jsval \<Rightarrow> jsstring" where
  "sanitize str =
     (case str of
        JStr s \<Rightarrow> filter (\<lambda>c. \<not> is_ctl c) (trim s)
      | _ \<Rightarrow> [])"

text \<open>
  \<^verbatim>\<open>truncate: (str, maxLength) => {
    const sanitized = stringTransformers.sanitize(str);
    return sanitized.length > maxLength ? sanitized.substring(0, maxLength) : sanitized;
  }\<close>
  Every call in the program passes a literal natural number as \<open>maxLength\<close>.
\<close>

definition truncate_str :: "jsval \<Rightarrow> nat \<Rightarrow> jsstring" where
  "truncate_str str maxLength =
     (let sanitized = sanitize str
      in if length sanitized > maxLength then take maxLength sanitized else sanitized)"

subsection \<open>Number transformers\<close>

text \<open>
  \<^verbatim>\<open>toInt: (value, defaultValue = 0) => {
    const parsed = parseInt(value, 10);
    return isNaN(parsed) ? defaultValue : parsed;
  }\<close>
  Every call in the program passes a number as \<open>defaultValue\<close>.
\<close>

definition toInt :: "js_runtime \<Rightarrow> jsval \<Rightarrow> jsnum \<Rightarrow> jsnum" where
  "toInt rt v defaultValue =
     (let parsed = parseInt10 rt v in if parsed = NaN then defaultValue else parsed)"

definition toFloat :: "js_runtime \<Rightarrow> jsval \<Rightarrow> jsnum \<Rightarrow> jsnum" where
  "toFloat rt v defaultValue =
     (let parsed = parseFloat rt v in if parsed = NaN then defaultValue else parsed)"

text \<open>
  \<^verbatim>\<open>clamp: (value, min, max) => {
    const num = typeof value === 'number' ? value : numberTransformers.toFloat(value);
    return Math.min(Math.max(num, min), max);
  }\<close>
  The bounds are numbers; \<open>toFloat\<close> is called with its default \<open>0.0\<close>.
\<close>

definition clamp :: "js_runtime \<Rightarrow> jsval \<Rightarrow> jsnum \<Rightarrow> jsnum \<Rightarrow> jsnum" where
  "clamp rt v mn mx =
     (let num = (case v of JNum n \<Rightarrow> n | _ \<Rightarrow> toFloat rt v (Fin 0))
      in Math_min (Math_max num mn) mx)"

subsection \<open>Date and boolean transformers\<close>

text \<open>
  \<^verbatim>\<open>toISO: (date) => {
    if (!date) return null;
    try {
      const d = date instanceof Date ? date : new Date(date);
      return isNaN(d.getTime()) ? null : d.toISOString();
    } catch {
      return null;
    }
  }\<close>
\<close>

definition toISO :: "js_runtime \<Rightarrow> jsval \<Rightarrow> jsval" where
  "toISO rt date =
     (if \<not> truthy date then JNull
      else case (case date of JDate t \<Rightarrow> DateObj t | _ \<Rightarrow> newDate rt date) of
             Throws \<Rightarrow> JNull
           | DateObj None \<Rightarrow> JNull
           | DateObj (Some t) \<Rightarrow> JStr (toISOString rt t))"

text \<open>
  \<^verbatim>\<open>toBool: (value) => {
    if (typeof value === 'boolean') return value;
    if (typeof value === 'number') return value !== 0;
    if (typeof value === 'string') {
      const lower = value.toLowerCase();
      return lower === 'true' || lower === '1' || lower === 'yes';
    }
    return !!value;
  }\<close>
\<close>

definition toBool :: "js_runtime \<Rightarrow> jsval \<Rightarrow> bool" where
  "toBool rt v =
     (case v of
        JBool b \<Rightarrow> b
      | JNum n \<Rightarrow> n \<noteq> Fin 0
      | JStr s \<Rightarrow>
          (let lower = toLowerCase rt s
           in lower = u16 ''true'' \<or> lower = u16 ''1'' \<or> lower = u16 ''yes'')
      | _ \<Rightarrow> truthy v)"

subsection \<open>Pagination transformers\<close>

text \<open>
  \<^verbatim>\<open>normalizePagination: (page, limit, maxLimit = 100) => {
    const normalizedPage = Math.max(1, numberTransformers.toInt(page, 1));
    const normalizedLimit = numberTransformers.clamp(
      numberTransformers.toInt(limit, 20), 1, maxLimit);
    const offset = (normalizedPage - 1) * normalizedLimit;
    return { page: normalizedPage, limit: normalizedLimit, offset };
  }\<close>
\<close>

record pagination =
  page :: jsnum
  limit :: jsnum
  offset :: jsnum

definition normalizePagination :: "js_runtime \<Rightarrow> jsval \<Rightarrow> jsval \<Rightarrow> jsnum \<Rightarrow> pagination" where
  "normalizePagination rt pageArg limitArg maxLimit =
     (let normalizedPage = Math_max (Fin 1) (toInt rt pageArg (Fin 1));
          normalizedLimit = clamp rt (JNum (toInt rt limitArg (Fin 20))) (Fin 1) maxLimit
      in \<lparr> page = normalizedPage, limit = normalizedLimit,
           offset = num_mul (num_sub normalizedPage (Fin 1)) normalizedLimit \<rparr>)"

subsection \<open>Input transformers\<close>

text \<open>An object literal with ASCII keys.\<close>

definition obj :: "(string \<times> jsval) list \<Rightarrow> jsval" where
  "obj kvs = JObj (map (\<lambda>(k, v). (u16 k, v)) kvs)"

datatype js_error = TypeError

text \<open>
  \<^verbatim>\<open>wish: (data) => {
    return {
      name: stringTransformers.truncate(data.name, 100),
      content: stringTransformers.truncate(data.content, 1000),
      category: ['nice', 'naughty'].includes(data.category) ? data.category : 'nice',
      is_anonymous: booleanTransformers.toBool(data.is_anonymous)
    };
  }\<close>
  Reading \<open>data.name\<close> throws a TypeError when \<open>data\<close> is null or undefined.
\<close>

definition input_wish :: "js_runtime \<Rightarrow> jsval \<Rightarrow> js_error + jsval" where
  "input_wish rt data =
     (if nullish data then Inl TypeError
      else Inr (obj
        [(''name'', JStr (truncate_str (get_prop data ''name'') 100)),
         (''content'', JStr (truncate_str (get_prop data ''content'') 1000)),
         (''category'',
            if js_includes [''nice'', ''naughty''] (get_prop data ''category'')
            then get_prop data ''category'' else JStr (u16 ''nice'')),
         (''is_anonymous'', JBool (toBool rt (get_prop data ''is_anonymous'')))]))"

text \<open>
  \<^verbatim>\<open>todo: (data) => {
    const transformed = {
      title: stringTransformers.truncate(data.title, 255)
    };
    if (data.description !== undefined) {
      transformed.description = stringTransformers.truncate(data.description, 1000);
    }
    if (data.priority !== undefined) {
      transformed.priority = ['low', 'medium', 'high'].includes(data.priority)
        ? data.priority : 'medium';
    }
    if (data.due_date !== undefined) {
      transformed.due_date = data.due_date;
    }
    if (data.completed !== undefined) {
      transformed.completed = booleanTransformers.toBool(data.completed);
    }
    return transformed;
  }\<close>
\<close>

definition input_todo :: "js_runtime \<Rightarrow> jsval \<Rightarrow> js_error + jsval" where
  "input_todo rt data =
     (if nullish data then Inl TypeError
      else Inr (obj
        ([(''title'', JStr (truncate_str (get_prop data ''title'') 255))]
         @ (if get_prop data ''description'' \<noteq> JUndefined
            then [(''description'', JStr (truncate_str (get_prop data ''description'') 1000))]
            else [])
         @ (if get_prop data ''priority'' \<noteq> JUndefined
            then [(''priority'',
                   if js_includes [''low'', ''medium'', ''high''] (get_prop data ''priority'')
                   then get_prop data ''priority'' else JStr (u16 ''medium''))]
            else [])
         @ (if get_prop data ''due_date'' \<noteq> JUndefined
            then [(''due_date'', get_prop data ''due_date'')]
            else [])
         @ (if get_prop data ''completed'' \<noteq> JUndefined
            then [(''completed'', JBool (toBool rt (get_prop data ''completed'')))]
            else []))))"

subsection \<open>Output transformers\<close>

text \<open>
  Each begins with \<^verbatim>\<open>if (!record) return null;\<close> and then builds the response
  object; \<^verbatim>\<open>x || null\<close> is \<open>js_or x JNull\<close>.
  \<^verbatim>\<open>user: (userData) => {
    if (!userData) return null;
    return {
      id: userData.id,
      username: userData.username,
      email: userData.email,
      avatar: userData.avatar || null,
      created_at: dateTransformers.toISO(userData.created_at)
    };
  }\<close>
\<close>

definition output_user :: "js_runtime \<Rightarrow> jsval \<Rightarrow> jsval" where
  "output_user rt userData =
     (if \<not> truthy userData then JNull
      else obj
        [(''id'', get_prop userData ''id''),
         (''username'', get_prop userData ''username''),
         (''email'', get_prop userData ''email''),
         (''avatar'', js_or (get_prop userData ''avatar'') JNull),
         (''created_at'', toISO rt (get_prop userData ''created_at''))])"

text \<open>
  \<^verbatim>\<open>wish: (wishData) => {
    if (!wishData) return null;
    return {
      id: wishData.id, name: wishData.name, content: wishData.content,
      category: wishData.category,
      is_anonymous: booleanTransformers.toBool(wishData.is_anonymous),
      created_at: dateTransformers.toISO(wishData.created_at)
    };
  }\<close>
\<close>

definition output_wish :: "js_runtime \<Rightarrow> jsval \<Rightarrow> jsval" where
  "output_wish rt wishData =
     (if \<not> truthy wishData then JNull
      else obj
        [(''id'', get_prop wishData ''id''),
         (''name'', get_prop wishData ''name''),
         (''content'', get_prop wishData ''content''),
         (''category'', get_prop wishData ''category''),
         (''is_anonymous'', JBool (toBool rt (get_prop wishData ''is_anonymous''))),
         (''created_at'', toISO rt (get_prop wishData ''created_at''))])"

text \<open>
  \<^verbatim>\<open>todo: (todoData) => {
    if (!todoData) return null;
    return {
      id: todoData.id, title: todoData.title,
      description: todoData.description || null,
      completed: booleanTransformers.toBool(todoData.completed),
      priority: todoData.priority,
      due_date: todoData.due_date,
      created_at: dateTransformers.toISO(todoData.created_at),
      updated_at: dateTransformers.toISO(todoData.updated_at)
    };
  }\<close>
\<close>

definition output_todo :: "js_runtime \<Rightarrow> jsval \<Rightarrow> jsval" where
  "output_todo rt todoData =
     (if \<not> truthy todoData then JNull
      else obj
        [(''id'', get_prop todoData ''id''),
         (''title'', get_prop todoData ''title''),
         (''description'', js_or (get_prop todoData ''description'') JNull),
         (''completed'', JBool (toBool rt (get_prop todoData ''completed''))),
         (''priority'', get_prop todoData ''priority''),
         (''due_date'', get_prop todoData ''due_date''),
         (''created_at'', toISO rt (get_prop todoData ''created_at'')),
         (''updated_at'', toISO rt (get_prop todoData ''updated_at''))])"

text \<open>
  \<^verbatim>\<open>timelineEvent: (eventData) => {
    if (!eventData) return null;
    return {
      id: eventData.id, title: eventData.title, event_date: eventData.event_date,
      meta: eventData.meta || null,
      description: eventData.description || null,
      created_at: dateTransformers.toISO(eventData.created_at)
    };
  }\<close>
\<close>

definition output_timelineEvent :: "js_runtime \<Rightarrow> jsval \<Rightarrow> jsval" where
  "output_timelineEvent rt eventData =
     (if \<not> truthy eventData then JNull
      else obj
        [(''id'', get_prop eventData ''id''),
         (''title'', get_prop eventData ''title''),
         (''event_date'', get_prop eventData ''event_date''),
         (''meta'', js_or (get_prop eventData ''meta'') JNull),
         (''description'', js_or (get_prop eventData ''description'') JNull),
         (''created_at'', toISO rt (get_prop eventData ''created_at''))])"

text \<open>
  \<^verbatim>\<open>galleryImage: (imageData) => {
    if (!imageData) return null;
    return {
      id: imageData.id, image_url: imageData.image_url,
      thumbnail_url: imageData.thumbnail_url || imageData.image_url,
      label: imageData.label || null,
      description: imageData.description || null,
      category: imageData.category,
      created_at: dateTransformers.toISO(imageData.created_at)
    };
  }\<close>
\<close>

definition output_galleryImage :: "js_runtime \<Rightarrow> jsval \<Rightarrow> jsval" where
  "output_galleryImage rt imageData =
     (if \<not> truthy imageData then JNull
      else obj
        [(''id'', get_prop imageData ''id''),
         (''image_url'', get_prop imageData ''image_url''),
         (''thumbnail_url'',
            js_or (get_prop imageData ''thumbnail_url'') (get_prop imageData ''image_url'')),
         (''label'', js_or (get_prop imageData ''label'') JNull),
         (''description'', js_or (get_prop imageData ''description'') JNull),
         (''category'', get_prop imageData ''category''),
         (''created_at'', toISO rt (get_prop imageData ''created_at''))])"

text \<open>
  \<^verbatim>\<open>music: (musicData) => {
    if (!musicData) return null;
    return {
      id: musicData.id, title: musicData.title,
      artist: musicData.artist || null, tag: musicData.tag || null,
      url: musicData.url || null, duration: musicData.duration || null,
      play_count: numberTransformers.toInt(musicData.play_count, 0),
      created_at: dateTransformers.toISO(musicData.created_at)
    };
  }\<close>
\<close>

definition output_music :: "js_runtime \<Rightarrow> jsval \<Rightarrow> jsval" where
  "output_music rt musicData =
     (if \<not> truthy musicData then JNull
      else obj
        [(''id'', get_prop musicData ''id''),
         (''title'', get_prop musicData ''title''),
         (''artist'', js_or (get_prop musicData ''artist'') JNull),
         (''tag'', js_or (get_prop musicData ''tag'') JNull),
         (''url'', js_or (get_prop musicData ''url'') JNull),
         (''duration'', js_or (get_prop musicData ''duration'') JNull),
         (''play_count'', JNum (toInt rt (get_prop musicData ''play_count'') (Fin 0))),
         (''created_at'', toISO rt (get_prop musicData ''created_at''))])"

section \<open>server.js\<close>

subsection \<open>Requests, responses and the store\<close>

text \<open>
  A request as the handlers see it: the headers (Node gives each as a string), the
  \<open>:id\<close> route parameter, the parsed query, the body as \<open>express.json()\<close> and
  \<open>express.urlencoded()\<close> leave it (an object), and \<open>req.user\<close>, undefined until
  the authentication middleware sets it.
\<close>

record request =
  req_headers :: "(jsstring \<times> jsstring) list"
  req_params_id :: jsval
  req_query :: jsobj
  req_body :: jsobj
  req_user :: jsval

record response =
  status :: nat
  json :: jsval

text \<open>
  The persistence collaborator: the tables the modelled handlers touch. A row is the
  list of its columns; the store keeps a bound value as it was given. \<open>clock\<close> is the
  time in milliseconds, read for \<open>CURDATE()\<close> and \<open>new Date()\<close>.
\<close>

record stat_row =
  stat_date :: int
  visit_count :: int
  active_users :: int
  wishes_count :: int
  todos_count :: int

record db =
  todos :: "jsobj list"
  wishes :: "jsobj list"
  wishes_auto_increment :: int
  site_stats :: "stat_row list"
  clock :: int

datatype statement = Select | Insert | Update | Delete | Upsert

text \<open>What a handler leaves behind: the response, the store, the statements it issued.\<close>

record outcome =
  response :: response
  store :: db
  issued :: "statement list"

definition error_json :: "string \<Rightarrow> jsval" where
  "error_json msg = obj [(''error'', JStr (u16 msg))]"

text \<open>
  \<open>errorHandler\<close>, reached through \<open>next(error)\<close>: status 500 (the optional
  \<open>message\<close> field of development mode is left out).
\<close>

definition errorHandler :: response where
  "errorHandler = \<lparr> status = 500, json = error_json ''Internal server error'' \<rparr>"

text \<open>The driver refuses a statement with an undefined bind parameter.\<close>

definition bind_ok :: "jsval list \<Rightarrow> bool" where
  "bind_ok params = (JUndefined \<notin> set params)"

text \<open>Setting a column of a row, and the columns a SELECT lists.\<close>

definition set_col :: "jsstring \<Rightarrow> jsval \<Rightarrow> jsobj \<Rightarrow> jsobj" where
  "set_col k v row =
     (if k \<in> set (map fst row) then map (\<lambda>(k', v'). if k' = k then (k', v) else (k', v')) row
      else row @ [(k, v)])"

definition select_cols :: "string list \<Rightarrow> jsobj \<Rightarrow> jsval" where
  "select_cols cols row = obj (map (\<lambda>c. (c, lookup row (u16 c))) cols)"

subsection \<open>Authentication middleware\<close>

text \<open>\<open>s.split(sep)\<close> for a separator of one code unit.\<close>

fun split_on :: "16 word \<Rightarrow> jsstring \<Rightarrow> jsstring list" where
  "split_on sep [] = [[]]"
| "split_on sep (c # cs) =
     (if c = sep then [] # split_on sep cs
      else case split_on sep cs of
             w # ws \<Rightarrow> (c # w) # ws
           | [] \<Rightarrow> [[c]])"

text \<open>
  \<^verbatim>\<open>const authHeader = req.headers['authorization'];
  const token = authHeader && authHeader.split(' ')[1];\<close>
\<close>

definition bearer_token :: "request \<Rightarrow> jsval" where
  "bearer_token req =
     (case map_of (req_headers req) (u16 ''authorization'') of
        None \<Rightarrow> JUndefined
      | Some authHeader \<Rightarrow>
          js_and (JStr authHeader)
            (case split_on 0x20 authHeader of
               _ # t # _ \<Rightarrow> JStr t
             | _ \<Rightarrow> JUndefined))"

text \<open>
  \<^verbatim>\<open>function authenticateToken(req, res, next) {
    ...
    if (!token) {
      return res.status(401).json({ error: 'Access token required' });
    }
    jwt.verify(token, jwtSecret, (err, user) => {
      if (err) {
        return res.status(403).json({ error: 'Invalid or expired token' });
      }
      req.user = user;
      next();
    });
  }\<close>
  \<open>jwt.verify\<close> with the server's secret is the parameter \<open>verify\<close>: \<open>None\<close> for
  an error (bad signature, expired), otherwise the decoded payload. The token is
  undefined or a string, so \<open>!token\<close> is the case of undefined and of the empty string.
\<close>

datatype admission = Respond response | Next request

definition authenticateToken :: "(jsstring \<Rightarrow> jsval option) \<Rightarrow> request \<Rightarrow> admission" where
  "authenticateToken verify req =
     (case bearer_token req of
        JStr token \<Rightarrow>
          if token = [] then Respond \<lparr> status = 401, json = error_json ''Access token required'' \<rparr>
          else (case verify token of
                  None \<Rightarrow> Respond \<lparr> status = 403, json = error_json ''Invalid or expired token'' \<rparr>
                | Some user \<Rightarrow> Next (req \<lparr> req_user := user \<rparr>))
      | _ \<Rightarrow> Respond \<lparr> status = 401, json = error_json ''Access token required'' \<rparr>)"

text \<open>
  \<^verbatim>\<open>function optionalAuth(req, res, next) {
    ...
    if (token) {
      jwt.verify(token, jwtSecret, (err, user) => { if (!err) { req.user = user; } });
    }
    next();
  }\<close>
\<close>

definition optionalAuth :: "(jsstring \<Rightarrow> jsval option) \<Rightarrow> request \<Rightarrow> admission" where
  "optionalAuth verify req =
     (case bearer_token req of
        JStr token \<Rightarrow>
          if token = [] then Next req
          else (case verify token of None \<Rightarrow> Next req | Some user \<Rightarrow> Next (req \<lparr> req_user := user \<rparr>))
      | _ \<Rightarrow> Next req)"

text \<open>
  A route \<open>app.METHOD(path, middleware, handler)\<close>: the handler runs only when the
  middleware calls \<open>next()\<close>.
\<close>

definition route :: "(request \<Rightarrow> admission) \<Rightarrow> (request \<Rightarrow> db \<Rightarrow> outcome) \<Rightarrow> request \<Rightarrow> db \<Rightarrow> outcome" where
  "route middleware handler req d =
     (case middleware req of
        Respond r \<Rightarrow> \<lparr> response = r, store = d, issued = [] \<rparr>
      | Next req' \<Rightarrow> handler req' d)"

subsection \<open>GET /api/wishes and GET /api/gallery: the page window\<close>




subsection \<open>POST /api/wishes\<close>



subsection \<open>PATCH and DELETE /api/todos/:id\<close>

text \<open>
  \<open>sql_eq column parameter\<close> is the store's comparison of a column with a bound
  parameter in \<^verbatim>\<open>WHERE id = ? AND user_id = ?\<close>.
  \<^verbatim>\<open>app.patch('/api/todos/:id', authenticateToken, async (req, res, next) => {
    try {
      const { id } = req.params;
      const { title, description, completed, priority, due_date } = req.body;
      const [existing] = await pool.execute(
        'SELECT id FROM todos WHERE id = ? AND user_id = ?', [id, req.user.id]);
      if (existing.length === 0) {
        return res.status(404).json({ error: 'Todo not found' });
      }
      const updates = []; const params = [];
      if (title !== undefined) { updates.push('title = ?'); params.push(title); }
      if (description !== undefined) { ... }
      if (completed !== undefined) { updates.push('completed = ?'); params.push(completed ? 1 : 0); }
      if (priority !== undefined) {
        if (!['low', 'medium', 'high'].includes(priority)) {
          return res.status(400).json({ error: 'Priority must be "low", "medium", or "high"' });
        }
        updates.push('priority = ?'); params.push(priority);
      }
      if (due_date !== undefined) { ... }
      if (updates.length === 0) {
        return res.status(400).json({ error: 'No fields to update' });
      }
      params.push(id);
      await pool.execute(`UPDATE todos SET ${updates.join(', ')} WHERE id = ?`, params);
      const [updated] = await pool.execute('SELECT id, title, ... FROM todos WHERE id = ?', [id]);
      res.json({ message: 'Todo updated successfully', todo: updated[0] });
    } catch (error) { next(error); }
  });\<close>
\<close>

definition owned_todos :: "(jsval \<Rightarrow> jsval \<Rightarrow> bool) \<Rightarrow> request \<Rightarrow> db \<Rightarrow> jsobj list" where
  "owned_todos sql_eq req d =
     filter (\<lambda>r. sql_eq (lookup r (u16 ''id'')) (req_params_id req)
                \<and> sql_eq (lookup r (u16 ''user_id'')) (get_prop (req_user req) ''id''))
       (todos d)"

definition todo_updates :: "jsobj \<Rightarrow> (string \<times> jsval) list" where
  "todo_updates body =
     (if lookup body (u16 ''title'') \<noteq> JUndefined
      then [(''title'', lookup body (u16 ''title''))] else [])
     @ (if lookup body (u16 ''description'') \<noteq> JUndefined
        then [(''description'', lookup body (u16 ''description''))] else [])
     @ (if lookup body (u16 ''completed'') \<noteq> JUndefined
        then [(''completed'', JNum (Fin (if truthy (lookup body (u16 ''completed'')) then 1 else 0)))]
        else [])
     @ (if lookup body (u16 ''priority'') \<noteq> JUndefined
        then [(''priority'', lookup body (u16 ''priority''))] else [])
     @ (if lookup body (u16 ''due_date'') \<noteq> JUndefined
        then [(''due_date'', lookup body (u16 ''due_date''))] else [])"

definition todo_cols :: "string list" where
  "todo_cols = [''id'', ''title'', ''description'', ''completed'', ''priority'', ''due_date'',
                ''created_at'', ''updated_at'']"

definition patch_api_todos :: "(jsval \<Rightarrow> jsval \<Rightarrow> bool) \<Rightarrow> request \<Rightarrow> db \<Rightarrow> outcome" where
  "patch_api_todos sql_eq req d =
     (let id = req_params_id req; body = req_body req
      in if \<not> bind_ok [id, get_prop (req_user req) ''id''] then
           \<lparr> response = errorHandler, store = d, issued = [] \<rparr>
         else if owned_todos sql_eq req d = [] then
           \<lparr> response = \<lparr> status = 404, json = error_json ''Todo not found'' \<rparr>,
             store = d, issued = [Select] \<rparr>
         else if lookup body (u16 ''priority'') \<noteq> JUndefined
                 \<and> \<not> js_includes [''low'', ''medium'', ''high''] (lookup body (u16 ''priority'')) then
           \<lparr> response = \<lparr> status = 400,
                 json = error_json ''Priority must be \"low\", \"medium\", or \"high\"'' \<rparr>,
             store = d, issued = [Select] \<rparr>
         else if todo_updates body = [] then
           \<lparr> response = \<lparr> status = 400, json = error_json ''No fields to update'' \<rparr>,
             store = d, issued = [Select] \<rparr>
         else
           (let d1 = d \<lparr> todos :=
                  map (\<lambda>r. if sql_eq (lookup r (u16 ''id'')) id
                            then fold (\<lambda>(k, v). set_col (u16 k) v) (todo_updates body) r else r)
                    (todos d) \<rparr>;
                updated = filter (\<lambda>r. sql_eq (lookup r (u16 ''id'')) id) (todos d1)
            in \<lparr> response = \<lparr> status = 200, json = obj
                    [(''message'', JStr (u16 ''Todo updated successfully'')),
                     (''todo'', case updated of [] \<Rightarrow> JUndefined
                                | r # _ \<Rightarrow> select_cols todo_cols r)] \<rparr>,
                 store = d1, issued = [Select, Update, Select] \<rparr>))"

text \<open>
  \<^verbatim>\<open>app.delete('/api/todos/:id', authenticateToken, async (req, res, next) => {
    try {
      const { id } = req.params;
      const [existing] = await pool.execute(
        'SELECT id FROM todos WHERE id = ? AND user_id = ?', [id, req.user.id]);
      if (existing.length === 0) {
        return res.status(404).json({ error: 'Todo not found' });
      }
      await pool.execute('DELETE FROM todos WHERE id = ?', [id]);
      res.json({ message: 'Todo deleted successfully' });
    } catch (error) { next(error); }
  });\<close>
\<close>

definition delete_api_todos :: "(jsval \<Rightarrow> jsval \<Rightarrow> bool) \<Rightarrow> request \<Rightarrow> db \<Rightarrow> outcome" where
  "delete_api_todos sql_eq req d =
     (if \<not> bind_ok [req_params_id req, get_prop (req_user req) ''id''] then
        \<lparr> response = errorHandler, store = d, issued = [] \<rparr>
      else if owned_todos sql_eq req d = [] then
        \<lparr> response = \<lparr> status = 404, json = error_json ''Todo not found'' \<rparr>,
          store = d, issued = [Select] \<rparr>
      else
        \<lparr> response = \<lparr> status = 200,
              json = obj [(''message'', JStr (u16 ''Todo deleted successfully''))] \<rparr>,
          store = d \<lparr> todos :=
              filter (\<lambda>r. \<not> sql_eq (lookup r (u16 ''id'')) (req_params_id req)) (todos d) \<rparr>,
          issued = [Select, Delete] \<rparr>)"

section \<open>A reference runtime\<close>

text \<open>
  The concrete examples below need concrete built-ins. \<open>rt0\<close> follows ECMAScript on
  the inputs the examples use: \<open>parseInt\<close> and \<open>parseFloat\<close> on strings and on
  numbers printed in plain decimal notation, \<open>toLowerCase\<close> on ASCII, \<open>new Date\<close> of
  a number, \<open>toISOString\<close>. Where it gives \<open>NaN\<close> or an invalid date for another
  kind of value (an array, a date string, a number printed with an exponent) the real
  runtime may give more; no example goes there, and the general theorems hold for every
  runtime.
\<close>

definition is_digit :: "16 word \<Rightarrow> bool" where
  "is_digit c = (0x30 \<le> c \<and> c \<le> 0x39)"

definition is_hex :: "16 word \<Rightarrow> bool" where
  "is_hex c = (is_digit c \<or> (0x41 \<le> c \<and> c \<le> 0x46) \<or> (0x61 \<le> c \<and> c \<le> 0x66))"

definition digit_val :: "16 word \<Rightarrow> int" where
  "digit_val c =
     (if is_digit c then uint c - 48 else if 0x61 \<le> c then uint c - 87 else uint c - 55)"

definition digits_val :: "int \<Rightarrow> jsstring \<Rightarrow> int" where
  "digits_val radix ds = foldl (\<lambda>a c. a * radix + digit_val c) 0 ds"

text \<open>
  \<open>parseInt(string, radix)\<close>: skip leading white space, read a sign, with no radix
  given read a \<open>0x\<close> prefix, then the longest run of digits; \<open>NaN\<close> when it is empty.
\<close>

definition parseInt_str :: "bool \<Rightarrow> jsstring \<Rightarrow> jsnum" where
  "parseInt_str autoRadix s =
     (let t = dropWhile is_ws s;
          neg = (take 1 t = [0x2D]);
          u = (if take 1 t = [0x2D] \<or> take 1 t = [0x2B] then drop 1 t else t);
          hex = (autoRadix \<and> (take 2 u = [0x30, 0x78] \<or> take 2 u = [0x30, 0x58]));
          ds = (if hex then takeWhile is_hex (drop 2 u) else takeWhile is_digit u);
          n = digits_val (if hex then 16 else 10) ds
      in if ds = [] then NaN else Fin (of_int (if neg then - n else n)))"

definition ref_parseInt :: "bool \<Rightarrow> jsval \<Rightarrow> jsnum" where
  "ref_parseInt autoRadix v =
     (case v of
        JStr s \<Rightarrow> parseInt_str autoRadix s
      | JNum (Fin r) \<Rightarrow>
          if r = 0 \<or> (1 / 10 ^ 6 \<le> \<bar>r\<bar> \<and> \<bar>r\<bar> < 10 ^ 21)
          then Fin (of_int (if r < 0 then \<lceil>r\<rceil> else \<lfloor>r\<rfloor>)) else NaN
      | _ \<Rightarrow> NaN)"

text \<open>
  \<open>parseFloat(string)\<close>: leading white space, a sign, \<open>Infinity\<close> or decimal digits
  with an optional fraction and an optional exponent.
\<close>

definition parseFloat_str :: "jsstring \<Rightarrow> jsnum" where
  "parseFloat_str s =
     (let t = dropWhile is_ws s;
          neg = (take 1 t = [0x2D]);
          u = (if take 1 t = [0x2D] \<or> take 1 t = [0x2B] then drop 1 t else t);
          ip = takeWhile is_digit u;
          r1 = dropWhile is_digit u;
          fp = (if take 1 r1 = [0x2E] then takeWhile is_digit (drop 1 r1) else []);
          r2 = (if take 1 r1 = [0x2E] then dropWhile is_digit (drop 1 r1) else r1);
          r3 = (if take 1 r2 = [0x65] \<or> take 1 r2 = [0x45] then drop 1 r2 else []);
          eneg = (take 1 r3 = [0x2D]);
          ed = takeWhile is_digit
                 (if take 1 r3 = [0x2D] \<or> take 1 r3 = [0x2B] then drop 1 r3 else r3);
          m = (of_int (digits_val 10 ip) + of_int (digits_val 10 fp) / 10 ^ length fp :: real);
          x = (if eneg then m / 10 ^ nat (digits_val 10 ed) else m * 10 ^ nat (digits_val 10 ed))
      in if take 8 u = u16 ''Infinity'' then (if neg then NegInf else PosInf)
         else if ip = [] \<and> fp = [] then NaN
         else Fin (if neg then - x else x))"

definition ref_parseFloat :: "jsval \<Rightarrow> jsnum" where
  "ref_parseFloat v = (case v of JStr s \<Rightarrow> parseFloat_str s | JNum n \<Rightarrow> n | _ \<Rightarrow> NaN)"

definition ref_toLowerCase :: "jsstring \<Rightarrow> jsstring" where
  "ref_toLowerCase s = map (\<lambda>c. if 0x41 \<le> c \<and> c \<le> 0x5A then c + 0x20 else c) s"

definition ref_newDate :: "jsval \<Rightarrow> date_result" where
  "ref_newDate v =
     (case v of
        JNum (Fin r) \<Rightarrow>
          if \<bar>r\<bar> \<le> 8640000000000000 then DateObj (Some (if r < 0 then \<lceil>r\<rceil> else \<lfloor>r\<rfloor>))
          else DateObj None
      | JNull \<Rightarrow> DateObj (Some 0)
      | JBool b \<Rightarrow> DateObj (Some (if b then 1 else 0))
      | JDate t \<Rightarrow> DateObj t
      | _ \<Rightarrow> DateObj None)"

text \<open>The last \<open>w\<close> decimal digits of a natural number, for the widths used below.\<close>

definition dig :: "nat \<Rightarrow> 16 word" where
  "dig n = 0x30 + of_nat (n mod 10)"

definition pad2 :: "nat \<Rightarrow> jsstring" where
  "pad2 n = [dig (n div 10), dig n]"

definition pad3 :: "nat \<Rightarrow> jsstring" where
  "pad3 n = [dig (n div 100), dig (n div 10), dig n]"

definition pad4 :: "nat \<Rightarrow> jsstring" where
  "pad4 n = [dig (n div 1000), dig (n div 100), dig (n div 10), dig n]"

definition pad6 :: "nat \<Rightarrow> jsstring" where
  "pad6 n = [dig (n div 100000), dig (n div 10000)] @ pad4 n"

text \<open>
  \<open>toISOString\<close> of a time value: the proleptic Gregorian date of the day number
  (days since 1970-01-01, shifted to count from 0000-03-01; \<open>doe\<close> is the day of the
  400-year era, \<open>doy\<close> the day of the year that starts in March) and the time of day,
  as \<open>YYYY-MM-DDTHH:mm:ss.sssZ\<close> (six digits and a sign for a year outside 0..9999).
\<close>

definition year_of_era :: "int \<Rightarrow> int" where
  "year_of_era doe = (doe - doe div 1460 + doe div 36524 - doe div 146096) div 365"

definition day_of_year :: "int \<Rightarrow> int" where
  "day_of_year doe =
     doe - (365 * year_of_era doe + year_of_era doe div 4 - year_of_era doe div 100)"

definition month_of :: "int \<Rightarrow> int" where
  "month_of doy = (if (5 * doy + 2) div 153 < 10 then (5 * doy + 2) div 153 + 3
                   else (5 * doy + 2) div 153 - 9)"

definition day_of_month :: "int \<Rightarrow> int" where
  "day_of_month doy = doy - (153 * ((5 * doy + 2) div 153) + 2) div 5 + 1"

definition year_of :: "int \<Rightarrow> int" where
  "year_of z = year_of_era (z mod 146097) + (z div 146097) * 400
               + (if month_of (day_of_year (z mod 146097)) \<le> 2 then 1 else 0)"

definition iso_year :: "int \<Rightarrow> jsstring" where
  "iso_year y = (if 0 \<le> y \<and> y \<le> 9999 then pad4 (nat y)
                 else (if y < 0 then [0x2D] else [0x2B]) @ pad6 (nat \<bar>y\<bar>))"

definition iso_date :: "int \<Rightarrow> jsstring" where
  "iso_date z = iso_year (year_of z) @ [0x2D]
                @ pad2 (nat (month_of (day_of_year (z mod 146097)))) @ [0x2D]
                @ pad2 (nat (day_of_month (day_of_year (z mod 146097))))"

definition iso_time :: "nat \<Rightarrow> jsstring" where
  "iso_time ms = pad2 (ms div 3600000) @ [0x3A] @ pad2 (ms div 60000 mod 60) @ [0x3A]
                 @ pad2 (ms div 1000 mod 60) @ [0x2E] @ pad3 (ms mod 1000)"

definition ref_toISOString :: "int \<Rightarrow> jsstring" where
  "ref_toISOString t =
     iso_date (t div 86400000 + 719468) @ [0x54] @ iso_time (nat (t mod 86400000)) @ [0x5A]"

definition rt0 :: js_runtime where
  "rt0 = \<lparr> parseInt10 = ref_parseInt False, parseIntAuto = ref_parseInt True,
           parseFloat = ref_parseFloat, newDate = ref_newDate,
           toISOString = ref_toISOString, toLowerCase = ref_toLowerCase \<rparr>"

text \<open>
  A reference comparison for the store: an integer column against a number, or against
  a string holding that number's decimal digits.
\<close>

definition sql_eq0 :: "jsval \<Rightarrow> jsval \<Rightarrow> bool" where
  "sql_eq0 col param =
     (case (col, param) of
        (JNum (Fin c), JNum (Fin x)) \<Rightarrow> c = x
      | (JNum (Fin c), JStr s) \<Rightarrow> s \<noteq> [] \<and> list_all is_digit s \<and> c = of_int (digits_val 10 s)
      | _ \<Rightarrow> False)"

section \<open>The example integration of the transformers\<close>



text \<open>
  Its PATCH route builds the update from the shaped body:
  \<^verbatim>\<open>const todoData = input.todo(req.body);
  Object.entries(todoData).forEach(([key, value]) => {
    if (value !== undefined) {
      updates.push(`${key} = ?`);
      params.push(key === 'completed' ? (value ? 1 : 0) : value);
    }
  });\<close>
  The result is the list of columns it sets with the values it binds.
\<close>

definition example_patch_updates :: "js_runtime \<Rightarrow> jsobj \<Rightarrow> js_error + jsobj" where
  "example_patch_updates rt body =
     (case input_todo rt (JObj body) of
        Inl e \<Rightarrow> Inl e
      | Inr todoData \<Rightarrow>
          Inr (map (\<lambda>(k, v). (k, if k = u16 ''completed''
                                   then JNum (Fin (if truthy v then 1 else 0)) else v))
                 (filter (\<lambda>(k, v). v \<noteq> JUndefined)
                    (case todoData of JObj kvs \<Rightarrow> kvs | _ \<Rightarrow> []))))"

section \<open>Sample requests and stores\<close>

definition plain_request :: request where
  "plain_request = \<lparr> req_headers = [], req_params_id = JUndefined, req_query = [],
                      req_body = [], req_user = JUndefined \<rparr>"

definition empty_db :: db where
  "empty_db = \<lparr> todos = [], wishes = [], wishes_auto_increment = 1, site_stats = [], clock = 0 \<rparr>"

text \<open>A todo with id 7 that belongs to user 1, and a store holding it.\<close>

definition todo_of_user1 :: jsobj where
  "todo_of_user1 =
     [(u16 ''id'', JNum (Fin 7)), (u16 ''user_id'', JNum (Fin 1)),
      (u16 ''title'', JStr (u16 ''Buy gifts'')), (u16 ''description'', JNull),
      (u16 ''completed'', JNum (Fin 0)), (u16 ''priority'', JStr (u16 ''medium'')),
      (u16 ''due_date'', JNull), (u16 ''created_at'', JDate (Some 0)),
      (u16 ''updated_at'', JDate (Some 0))]"

definition db_user1 :: db where
  "db_user1 = empty_db \<lparr> todos := [todo_of_user1] \<rparr>"

text \<open>The decoded token of user \<open>uid\<close>, and that user's PATCH of todo \<open>tid\<close>.\<close>

definition identity :: "real \<Rightarrow> jsval" where
  "identity uid = obj [(''id'', JNum (Fin uid)), (''username'', JStr (u16 ''u'')),
                       (''email'', JStr (u16 ''u@example.com''))]"

definition patch_by :: "real \<Rightarrow> string \<Rightarrow> request" where
  "patch_by uid tid = plain_request \<lparr> req_params_id := JStr (u16 tid),
                       req_body := [(u16 ''completed'', JBool True)], req_user := identity uid \<rparr>"

text \<open>A verifier that accepts the one token \<open>good\<close>, issued to user 2.\<close>

definition verify0 :: "jsstring \<Rightarrow> jsval option" where
  "verify0 token = (if token = u16 ''good'' then Some (identity 2) else None)"

definition with_authorization :: "string \<Rightarrow> request" where
  "with_authorization h = patch_by 0 ''7'' \<lparr> req_headers := [(u16 ''authorization'', u16 h)],
                            req_user := JUndefined \<rparr>"

text \<open>A gallery row as the store returns it, without thumbnail, label or description.\<close>

definition image_row :: jsval where
  "image_row = obj [(''id'', JNum (Fin 1)), (''image_url'', JStr (u16 ''/uploads/a.png'')),
     (''thumbnail_url'', JNull), (''label'', JNull), (''description'', JNull),
     (''category'', JStr (u16 ''general'')), (''created_at'', JDate (Some 0))]"

section \<open>Properties\<close>

lemmas js_eval = lookup_def get_prop_def u16_def obj_def has_key_def nullish_def
  js_includes_def js_or_def js_and_def

lemmas str_eval = sanitize_def truncate_str_def trim_def is_ws_def is_ctl_def

lemmas parse_eval = rt0_def ref_parseInt_def parseInt_str_def is_ws_def is_digit_def
  digits_val_def digit_val_def

subsection \<open>The expectations of transformers/test.js\<close>

lemma test_sanitize_control:
  "sanitize (JStr (u16 ''hello'' @ [0x00] @ u16 ''world'' @ [0x1F])) = u16 ''helloworld''"
  by (simp add: str_eval u16_def)

lemma test_sanitize_trim: "sanitize (JStr (u16 ''  hello  '')) = u16 ''hello''"
  by (simp add: str_eval u16_def)

lemma test_truncate: "truncate_str (JStr (u16 ''hello world'')) 5 = u16 ''hello''"
  by (simp add: str_eval u16_def)

lemma test_toInt:
  "toInt rt0 (JStr (u16 ''42'')) (Fin 0) = Fin 42
   \<and> toInt rt0 (JStr (u16 ''invalid'')) (Fin 10) = Fin 10"
  by (simp add: toInt_def parse_eval u16_def)

lemma test_clamp: "clamp rt0 (JNum (Fin 150)) (Fin 1) (Fin 100) = Fin 100"
  by (simp add: clamp_def Math_max_def Math_min_def)

lemma test_toBool:
  "toBool rt0 (JStr (u16 ''true'')) \<and> toBool rt0 (JStr (u16 ''1''))
   \<and> toBool rt0 (JStr (u16 ''yes'')) \<and> \<not> toBool rt0 (JStr (u16 ''false''))
   \<and> \<not> toBool rt0 (JStr (u16 ''0'')) \<and> \<not> toBool rt0 (JStr [])"
  by (simp add: toBool_def rt0_def ref_toLowerCase_def u16_def)

lemma test_toISO:
  "toISO rt0 (JDate (Some 1766620800000)) = JStr (u16 ''2025-12-25T00:00:00.000Z'')"
  by (simp add: toISO_def rt0_def ref_toISOString_def iso_date_def iso_time_def iso_year_def
      year_of_def year_of_era_def day_of_year_def month_of_def day_of_month_def
      pad2_def pad3_def pad4_def dig_def u16_def)

lemma test_normalizePagination:
  "normalizePagination rt0 (JNum (Fin 2)) (JNum (Fin 10)) (Fin 100)
     = \<lparr> page = Fin 2, limit = Fin 10, offset = Fin 10 \<rparr>
   \<and> limit (normalizePagination rt0 (JNum (Fin 1)) (JNum (Fin 200)) (Fin 100)) = Fin 100"
  by (simp add: normalizePagination_def toInt_def clamp_def Math_max_def Math_min_def
      parse_eval num_sub_def Let_def)

lemma test_input_wish:
  "input_wish rt0 (obj [(''name'', JStr (u16 ''  Santa  '')),
       (''content'', JStr (u16 ''  I want a gift  '')),
       (''category'', JStr (u16 ''nice'')), (''is_anonymous'', JStr (u16 ''true''))])
   = Inr (obj [(''name'', JStr (u16 ''Santa'')), (''content'', JStr (u16 ''I want a gift'')),
       (''category'', JStr (u16 ''nice'')), (''is_anonymous'', JBool True)])"
  by (simp add: input_wish_def str_eval toBool_def rt0_def ref_toLowerCase_def js_eval)

lemma test_input_todo:
  "input_todo rt0 (obj [(''title'', JStr (u16 ''  Buy gifts  '')),
       (''description'', JStr (u16 ''  For family  '')),
       (''priority'', JStr (u16 ''high'')), (''completed'', JStr (u16 ''1''))])
   = Inr (obj [(''title'', JStr (u16 ''Buy gifts'')), (''description'', JStr (u16 ''For family'')),
       (''priority'', JStr (u16 ''high'')), (''completed'', JBool True)])"
  by (simp add: input_todo_def str_eval toBool_def rt0_def ref_toLowerCase_def js_eval)

subsection \<open>Wish category (C1)\<close>







subsection \<open>Ownership of todos (C2)\<close>

text \<open>
  C2. A PATCH /api/todos/:id request carries a route id and the identity that
  \<open>authenticateToken\<close> attached to it. When no stored todo has both that id and that identity's id as its
  owner (the todo belongs to someone else, or there is no such todo), the handler
  answers 404 \<open>Todo not found\<close>, has issued the ownership SELECT only, and the store,
  so every todo in it, is unchanged.
\<close>

theorem patch_todo_not_owner:
  assumes "req_params_id req \<noteq> JUndefined"
    and "get_prop (req_user req) ''id'' \<noteq> JUndefined"
    and "\<forall>r \<in> set (todos d). sql_eq (lookup r (u16 ''id'')) (req_params_id req)
            \<longrightarrow> \<not> sql_eq (lookup r (u16 ''user_id'')) (get_prop (req_user req) ''id'')"
  shows "response (patch_api_todos sql_eq req d)
           = \<lparr> status = 404, json = error_json ''Todo not found'' \<rparr>
       \<and> store (patch_api_todos sql_eq req d) = d
       \<and> issued (patch_api_todos sql_eq req d) = [Select]"
proof -
  have "owned_todos sql_eq req d = []"
    using assms(3) by (auto simp: owned_todos_def filter_empty_conv)
  moreover have "bind_ok [req_params_id req, get_prop (req_user req) ''id'']"
    using assms(1,2) by (auto simp: bind_ok_def)
  ultimately show ?thesis by (simp add: patch_api_todos_def Let_def)
qed

theorem patch_todo_not_owner_witness:
  "response (patch_api_todos sql_eq0 (patch_by 2 ''7'') db_user1)
     = \<lparr> status = 404, json = error_json ''Todo not found'' \<rparr>
   \<and> store (patch_api_todos sql_eq0 (patch_by 2 ''7'') db_user1) = db_user1
   \<and> issued (patch_api_todos sql_eq0 (patch_by 2 ''7'') db_user1) = [Select]
   \<and> status (response (patch_api_todos sql_eq0 (patch_by 1 ''8'') db_user1)) = 404
   \<and> route (authenticateToken verify0) (patch_api_todos sql_eq0)
         (with_authorization ''Bearer good'') db_user1
       = \<lparr> response = \<lparr> status = 404, json = error_json ''Todo not found'' \<rparr>,
           store = db_user1, issued = [Select] \<rparr>
   \<and> status (response (patch_api_todos sql_eq0 (patch_by 1 ''7'') db_user1)) = 200
   \<and> store (patch_api_todos sql_eq0 (patch_by 1 ''7'') db_user1) \<noteq> db_user1"
proof -
  let ?via = "patch_by 2 ''7'' \<lparr> req_headers := [(u16 ''authorization'', u16 ''Bearer good'')] \<rparr>"
  have a: "req_params_id (patch_by u t) \<noteq> JUndefined" for u t
    by (simp add: plain_request_def empty_db_def todo_of_user1_def db_user1_def identity_def
          patch_by_def verify0_def with_authorization_def)
  have b: "get_prop (req_user (patch_by u t)) ''id'' \<noteq> JUndefined" for u t
    by (simp add: plain_request_def empty_db_def todo_of_user1_def db_user1_def identity_def
          patch_by_def verify0_def with_authorization_def js_eval)
  have c: "\<forall>r \<in> set (todos db_user1).
            sql_eq0 (lookup r (u16 ''id'')) (req_params_id (patch_by 2 ''7''))
            \<longrightarrow> \<not> sql_eq0 (lookup r (u16 ''user_id'')) (get_prop (req_user (patch_by 2 ''7'')) ''id'')"
    by (simp add: plain_request_def empty_db_def todo_of_user1_def db_user1_def identity_def
          patch_by_def verify0_def with_authorization_def js_eval sql_eq0_def is_digit_def digits_val_def digit_val_def)
  have c': "\<forall>r \<in> set (todos db_user1).
            sql_eq0 (lookup r (u16 ''id'')) (req_params_id (patch_by 1 ''8''))
            \<longrightarrow> \<not> sql_eq0 (lookup r (u16 ''user_id'')) (get_prop (req_user (patch_by 1 ''8'')) ''id'')"
    by (simp add: plain_request_def empty_db_def todo_of_user1_def db_user1_def identity_def
          patch_by_def verify0_def with_authorization_def js_eval sql_eq0_def is_digit_def digits_val_def digit_val_def)
  have va: "req_params_id ?via \<noteq> JUndefined"
    by (simp add: plain_request_def empty_db_def todo_of_user1_def db_user1_def identity_def
          patch_by_def verify0_def with_authorization_def)
  have vb: "get_prop (req_user ?via) ''id'' \<noteq> JUndefined"
    by (simp add: plain_request_def empty_db_def todo_of_user1_def db_user1_def identity_def
          patch_by_def verify0_def with_authorization_def js_eval)
  have vc: "\<forall>r \<in> set (todos db_user1).
            sql_eq0 (lookup r (u16 ''id'')) (req_params_id ?via)
            \<longrightarrow> \<not> sql_eq0 (lookup r (u16 ''user_id'')) (get_prop (req_user ?via) ''id'')"
    by (simp add: plain_request_def empty_db_def todo_of_user1_def db_user1_def identity_def
          patch_by_def verify0_def with_authorization_def js_eval sql_eq0_def is_digit_def digits_val_def digit_val_def)
  have g: "authenticateToken verify0 (with_authorization ''Bearer good'') = Next ?via"
    by (simp add: authenticateToken_def bearer_token_def plain_request_def empty_db_def todo_of_user1_def db_user1_def identity_def
          patch_by_def verify0_def with_authorization_def js_eval)
  have o: "owned_todos sql_eq0 (patch_by 1 ''7'') db_user1 = [todo_of_user1]"
    by (simp add: owned_todos_def plain_request_def empty_db_def todo_of_user1_def db_user1_def identity_def
          patch_by_def verify0_def with_authorization_def js_eval sql_eq0_def is_digit_def digits_val_def digit_val_def)
  have d: "status (response (patch_api_todos sql_eq0 (patch_by 1 ''7'') db_user1)) = 200
     \<and> store (patch_api_todos sql_eq0 (patch_by 1 ''7'') db_user1) \<noteq> db_user1"
    using o
    by (simp add: patch_api_todos_def Let_def bind_ok_def todo_updates_def
          plain_request_def empty_db_def todo_of_user1_def db_user1_def identity_def
          patch_by_def verify0_def with_authorization_def js_eval set_col_def sql_eq0_def is_digit_def digits_val_def digit_val_def)
  have e: "patch_api_todos sql_eq0 ?via db_user1
       = \<lparr> response = \<lparr> status = 404, json = error_json ''Todo not found'' \<rparr>,
           store = db_user1, issued = [Select] \<rparr>"
    using patch_todo_not_owner[OF va vb vc] by (cases "patch_api_todos sql_eq0 ?via db_user1") simp
  show ?thesis
    using patch_todo_not_owner[OF a b c] patch_todo_not_owner[OF a b c'] d e g
    by (simp add: route_def)
qed

text \<open>DELETE /api/todos/:id makes the same check before it deletes.\<close>

lemma delete_todo_not_owner:
  assumes "req_params_id req \<noteq> JUndefined"
    and "get_prop (req_user req) ''id'' \<noteq> JUndefined"
    and "\<forall>r \<in> set (todos d). sql_eq (lookup r (u16 ''id'')) (req_params_id req)
            \<longrightarrow> \<not> sql_eq (lookup r (u16 ''user_id'')) (get_prop (req_user req) ''id'')"
  shows "response (delete_api_todos sql_eq req d)
           = \<lparr> status = 404, json = error_json ''Todo not found'' \<rparr>
       \<and> store (delete_api_todos sql_eq req d) = d
       \<and> issued (delete_api_todos sql_eq req d) = [Select]"
proof -
  have "owned_todos sql_eq req d = []"
    using assms(3) by (auto simp: owned_todos_def filter_empty_conv)
  moreover have "bind_ok [req_params_id req, get_prop (req_user req) ''id'']"
    using assms(1,2) by (auto simp: bind_ok_def)
  ultimately show ?thesis by (simp add: delete_api_todos_def Let_def)
qed

subsection \<open>The user shaper hides the password hash (C3)\<close>

text \<open>
  C3. Whatever record it is given, the result of the user output shaper has no
  \<open>password_hash\<close> key.
\<close>

theorem output_user_no_password_hash:
  "\<not> has_key (output_user rt userData) ''password_hash''"
  by (simp add: output_user_def has_key_def obj_def u16_def)

text \<open>The record of the specification, with any creation time \<open>t\<close>.\<close>

lemma output_user_example:
  "output_user rt (obj [(''id'', JNum (Fin 1)), (''username'', JStr (u16 ''a'')),
       (''email'', JStr (u16 ''a@b.com'')), (''password_hash'', JStr (u16 ''x'')),
       (''created_at'', JDate (Some t))])
   = obj [(''id'', JNum (Fin 1)), (''username'', JStr (u16 ''a'')),
       (''email'', JStr (u16 ''a@b.com'')), (''avatar'', JNull),
       (''created_at'', JStr (toISOString rt t))]"
  by (simp add: output_user_def toISO_def js_eval)

subsection \<open>sanitize (C4)\<close>

text \<open>The part of C4 that holds: the result has no character of the control class.\<close>

lemma sanitize_no_control: "c \<in> set (sanitize v) \<Longrightarrow> \<not> is_ctl c"
  by (cases v) (simp_all add: sanitize_def)

text \<open>
  C4 (the code departs from it). \<open>sanitize\<close> trims before it strips the control
  characters, so white space that stood next to a control character at an end of the
  string survives: \<^verbatim>\<open>sanitize("\x00 a")\<close> is \<^verbatim>\<open>" a"\<close>, which starts with a space, and
  sanitizing it again gives \<^verbatim>\<open>"a"\<close>.
\<close>

theorem sanitize_leading_space:
  "sanitize (JStr [0x00, 0x20, 0x61]) = [0x20, 0x61]
   \<and> is_ws (hd (sanitize (JStr [0x00, 0x20, 0x61])))
   \<and> sanitize (JStr (sanitize (JStr [0x00, 0x20, 0x61]))) = [0x61]"
  by (simp add: str_eval)

subsection \<open>Pagination (C5)\<close>

lemma toFloat_not_NaN: "d \<noteq> NaN \<Longrightarrow> toFloat rt v d \<noteq> NaN"
  by (simp add: toFloat_def Let_def)


lemma min_max_in_range:
  assumes "n \<noteq> NaN" and "num_le mn mx"
  shows "num_le mn (Math_min (Math_max n mn) mx) \<and> num_le (Math_min (Math_max n mn) mx) mx"
  using assms by (cases n; cases mn; cases mx) (auto simp: Math_max_def Math_min_def)

lemma clamp_in_range:
  assumes "v \<noteq> JNum NaN" and "num_le mn mx"
  shows "num_le mn (clamp rt v mn mx) \<and> num_le (clamp rt v mn mx) mx"
proof -
  define n where "n = (case v of JNum n \<Rightarrow> n | _ \<Rightarrow> toFloat rt v (Fin 0))"
  have "n \<noteq> NaN"
    using assms(1) by (cases v) (auto simp: n_def toFloat_not_NaN)
  then show ?thesis
    using min_max_in_range[OF _ assms(2), of n] by (simp add: clamp_def n_def)
qed

lemma clamp_fixed:
  assumes "num_le mn n" and "num_le n mx"
  shows "clamp rt (JNum n) mn mx = n"
  using assms
  by (cases n; cases mn; cases mx) (auto simp: clamp_def Math_max_def Math_min_def Let_def)

lemma clamp_idempotent:
  assumes "v \<noteq> JNum NaN" and "num_le mn mx"
  shows "clamp rt (JNum (clamp rt v mn mx)) mn mx = clamp rt v mn mx"
  using clamp_in_range[OF assms] by (simp add: clamp_fixed)




subsection \<open>Required authentication (C6)\<close>

lemma split_on_no_sep: "sep \<notin> set t \<Longrightarrow> split_on sep t = [t]"
  by (induction t) auto

lemma split_on_first: "sep \<notin> set a \<Longrightarrow> split_on sep (a @ sep # b) = a # split_on sep b"
  by (induction a) (auto split: list.splits)

lemma split_on_word:
  assumes "sep \<notin> set t" and "rest = [] \<or> hd rest = sep"
  shows "\<exists>ws. split_on sep (t @ rest) = t # ws"
proof (cases rest)
  case Nil
  then show ?thesis using assms(1) by (simp add: split_on_no_sep)
next
  case (Cons c cs)
  then have "rest = sep # cs" using assms(2) by simp
  then show ?thesis using assms(1) by (simp add: split_on_first)
qed

text \<open>
  Every header either has no space, or is a first word, a space, a second word (maybe
  empty) and a rest that is empty or starts with a space.
\<close>

lemma header_shapes:
  "0x20 \<notin> set h
   \<or> (\<exists>a t rest. h = a @ 0x20 # t @ rest \<and> 0x20 \<notin> set a \<and> 0x20 \<notin> set t
          \<and> (rest = [] \<or> hd rest = 0x20))"
proof (cases "0x20 \<in> set h")
  case False
  then show ?thesis by simp
next
  case True
  define a where "a = takeWhile (\<lambda>c. c \<noteq> 0x20) h"
  define b where "b = tl (dropWhile (\<lambda>c. c \<noteq> 0x20) h)"
  define t where "t = takeWhile (\<lambda>c. c \<noteq> 0x20) b"
  define rest where "rest = dropWhile (\<lambda>c. c \<noteq> 0x20) b"
  have d: "dropWhile (\<lambda>c. c \<noteq> 0x20) h \<noteq> []" using True by (simp add: dropWhile_eq_Nil_conv)
  then have "hd (dropWhile (\<lambda>c. c \<noteq> 0x20) h) = 0x20"
    using hd_dropWhile[of "\<lambda>c. c \<noteq> 0x20" h] by simp
  then have "dropWhile (\<lambda>c. c \<noteq> 0x20) h = 0x20 # b"
    using d by (cases "dropWhile (\<lambda>c. c \<noteq> 0x20) h") (auto simp: b_def)
  then have "h = a @ 0x20 # b"
    using takeWhile_dropWhile_id[of "\<lambda>c. c \<noteq> 0x20" h] by (simp add: a_def)
  moreover have "b = t @ rest" by (simp add: t_def rest_def)
  moreover have "0x20 \<notin> set a" unfolding a_def by (auto dest: set_takeWhileD)
  moreover have "0x20 \<notin> set t" unfolding t_def by (auto dest: set_takeWhileD)
  moreover have "rest = [] \<or> hd rest = 0x20"
    using hd_dropWhile[of "\<lambda>c. c \<noteq> 0x20" b] by (auto simp: rest_def)
  ultimately show ?thesis by blast
qed

text \<open>The token the code reads, by the shape of the Authorization header.\<close>

lemma bearer_token_none:
  "map_of (req_headers req) (u16 ''authorization'') = None \<Longrightarrow> bearer_token req = JUndefined"
  by (simp add: bearer_token_def)

lemma bearer_token_one_word:
  assumes "map_of (req_headers req) (u16 ''authorization'') = Some h" and "0x20 \<notin> set h"
  shows "\<not> truthy (bearer_token req)"
  using assms by (simp add: bearer_token_def js_and_def split_on_no_sep)

lemma bearer_token_second_word:
  assumes "map_of (req_headers req) (u16 ''authorization'') = Some (a @ 0x20 # t @ rest)"
    and "0x20 \<notin> set a" and "0x20 \<notin> set t" and "rest = [] \<or> hd rest = 0x20"
  shows "bearer_token req = JStr t"
proof -
  obtain ws where "split_on 0x20 (t @ rest) = t # ws"
    using split_on_word[OF assms(3,4)] by blast
  then have "split_on 0x20 (a @ 0x20 # t @ rest) = a # t # ws"
    using assms(2) by (simp add: split_on_first)
  then show ?thesis using assms(1) by (simp add: bearer_token_def js_and_def)
qed

lemma bearer_token_cases: "bearer_token req = JUndefined \<or> (\<exists>t. bearer_token req = JStr t)"
  by (auto simp: bearer_token_def js_and_def split: option.splits list.splits)

lemma authenticateToken_by_token:
  "(\<not> truthy (bearer_token req) \<longrightarrow>
      authenticateToken verify req
        = Respond \<lparr> status = 401, json = error_json ''Access token required'' \<rparr>)
   \<and> (bearer_token req = JStr token \<and> token \<noteq> [] \<and> verify token = None \<longrightarrow>
      authenticateToken verify req
        = Respond \<lparr> status = 403, json = error_json ''Invalid or expired token'' \<rparr>)
   \<and> (bearer_token req = JStr token \<and> token \<noteq> [] \<and> verify token = Some user \<longrightarrow>
      authenticateToken verify req = Next (req \<lparr> req_user := user \<rparr>))"
  using bearer_token_cases[of req]
  by (auto simp: authenticateToken_def)

text \<open>The optional mode never answers: the request always goes on to the handler.\<close>

lemma optionalAuth_continues:
  "optionalAuth verify req = Next req
   \<or> (\<exists>token user. bearer_token req = JStr token \<and> token \<noteq> [] \<and> verify token = Some user
         \<and> optionalAuth verify req = Next (req \<lparr> req_user := user \<rparr>))"
  by (auto simp: optionalAuth_def split: jsval.splits option.splits)

text \<open>
  C6, as stated, fails: the code takes the second space-separated word of the
  Authorization header as the token and never looks at the scheme. A request with
  \<^verbatim>\<open>Authorization: Basic good\<close> carries no bearer token, yet it is admitted with the
  identity of the token \<open>good\<close>; a request with \<^verbatim>\<open>Authorization: Bearer  good\<close> (two
  spaces) carries that valid token and is answered 401.
\<close>

theorem authenticateToken_scheme_unchecked:
  "verify0 (u16 ''good'') = Some (identity 2)
   \<and> authenticateToken verify0 (with_authorization ''Basic good'')
       = Next (with_authorization ''Basic good'' \<lparr> req_user := identity 2 \<rparr>)
   \<and> authenticateToken verify0 (with_authorization ''Bearer  good'')
       = Respond \<lparr> status = 401, json = error_json ''Access token required'' \<rparr>"
  by (simp add: authenticateToken_def bearer_token_def verify0_def with_authorization_def
      patch_by_def plain_request_def identity_def js_eval)

text \<open>
  C6, amended. In the required mode the token is the second space-separated word of
  the Authorization header, whatever the first word is. When the header is absent, has
  no space, or has an empty second word, \<open>authenticateToken\<close> answers 401; when
  \<open>jwt.verify\<close> rejects the token it answers 403; in both cases the handler of the
  route does not run: the route's outcome is that answer, with the store untouched and
  no statement issued, whatever the handler. When the token verifies, the decoded
  identity becomes \<open>req.user\<close> and the route's outcome is the handler's on that
  request. By \<open>header_shapes\<close> these cases cover every request.
\<close>

theorem authenticateToken_by_header:
  "(map_of (req_headers req) (u16 ''authorization'') = None
      \<or> (map_of (req_headers req) (u16 ''authorization'') = Some h \<and> 0x20 \<notin> set h)
      \<or> (map_of (req_headers req) (u16 ''authorization'') = Some (a @ 0x20 # rest)
          \<and> 0x20 \<notin> set a \<and> (rest = [] \<or> hd rest = 0x20))
    \<longrightarrow>
      authenticateToken verify req
        = Respond \<lparr> status = 401, json = error_json ''Access token required'' \<rparr>
      \<and> route (authenticateToken verify) handler req d
          = \<lparr> response = \<lparr> status = 401, json = error_json ''Access token required'' \<rparr>,
              store = d, issued = [] \<rparr>)
   \<and> (map_of (req_headers req) (u16 ''authorization'') = Some (a @ 0x20 # token @ rest)
       \<and> 0x20 \<notin> set a \<and> token \<noteq> [] \<and> 0x20 \<notin> set token \<and> (rest = [] \<or> hd rest = 0x20)
       \<and> verify token = None
    \<longrightarrow>
      authenticateToken verify req
        = Respond \<lparr> status = 403, json = error_json ''Invalid or expired token'' \<rparr>
      \<and> route (authenticateToken verify) handler req d
          = \<lparr> response = \<lparr> status = 403, json = error_json ''Invalid or expired token'' \<rparr>,
              store = d, issued = [] \<rparr>)
   \<and> (map_of (req_headers req) (u16 ''authorization'') = Some (a @ 0x20 # token @ rest)
       \<and> 0x20 \<notin> set a \<and> token \<noteq> [] \<and> 0x20 \<notin> set token \<and> (rest = [] \<or> hd rest = 0x20)
       \<and> verify token = Some user
    \<longrightarrow>
      authenticateToken verify req = Next (req \<lparr> req_user := user \<rparr>)
      \<and> route (authenticateToken verify) handler req d = handler (req \<lparr> req_user := user \<rparr>) d)"
proof (intro conjI impI)
  assume h: "map_of (req_headers req) (u16 ''authorization'') = None
      \<or> (map_of (req_headers req) (u16 ''authorization'') = Some h \<and> 0x20 \<notin> set h)
      \<or> (map_of (req_headers req) (u16 ''authorization'') = Some (a @ 0x20 # rest)
          \<and> 0x20 \<notin> set a \<and> (rest = [] \<or> hd rest = 0x20))"
  have "\<not> truthy (bearer_token req)"
    using h
  proof (elim disjE)
    assume "map_of (req_headers req) (u16 ''authorization'') = None"
    then show ?thesis by (simp add: bearer_token_none)
  next
    assume "map_of (req_headers req) (u16 ''authorization'') = Some h \<and> 0x20 \<notin> set h"
    then show ?thesis by (simp add: bearer_token_one_word)
  next
    assume "map_of (req_headers req) (u16 ''authorization'') = Some (a @ 0x20 # rest)
          \<and> 0x20 \<notin> set a \<and> (rest = [] \<or> hd rest = 0x20)"
    then have "bearer_token req = JStr []"
      using bearer_token_second_word[of req a "[]" rest] by simp
    then show ?thesis by simp
  qed
  then show r: "authenticateToken verify req
        = Respond \<lparr> status = 401, json = error_json ''Access token required'' \<rparr>"
    using authenticateToken_by_token[where req = req and verify = verify] by simp
  show "route (authenticateToken verify) handler req d
          = \<lparr> response = \<lparr> status = 401, json = error_json ''Access token required'' \<rparr>,
              store = d, issued = [] \<rparr>"
    by (simp add: route_def r)
next
  assume h: "map_of (req_headers req) (u16 ''authorization'') = Some (a @ 0x20 # token @ rest)
       \<and> 0x20 \<notin> set a \<and> token \<noteq> [] \<and> 0x20 \<notin> set token \<and> (rest = [] \<or> hd rest = 0x20)
       \<and> verify token = None"
  then have "bearer_token req = JStr token"
    using bearer_token_second_word[of req a token rest] by simp
  then show r: "authenticateToken verify req
        = Respond \<lparr> status = 403, json = error_json ''Invalid or expired token'' \<rparr>"
    using h authenticateToken_by_token[where req = req and token = token and verify = verify]
    by simp
  show "route (authenticateToken verify) handler req d
          = \<lparr> response = \<lparr> status = 403, json = error_json ''Invalid or expired token'' \<rparr>,
              store = d, issued = [] \<rparr>"
    by (simp add: route_def r)
next
  assume h: "map_of (req_headers req) (u16 ''authorization'') = Some (a @ 0x20 # token @ rest)
       \<and> 0x20 \<notin> set a \<and> token \<noteq> [] \<and> 0x20 \<notin> set token \<and> (rest = [] \<or> hd rest = 0x20)
       \<and> verify token = Some user"
  then have "bearer_token req = JStr token"
    using bearer_token_second_word[of req a token rest] by simp
  then show r: "authenticateToken verify req = Next (req \<lparr> req_user := user \<rparr>)"
    using h authenticateToken_by_token[where req = req and token = token and verify = verify
        and user = user]
    by simp
  show "route (authenticateToken verify) handler req d = handler (req \<lparr> req_user := user \<rparr>) d"
    by (simp add: route_def r)
qed

theorem authenticateToken_by_header_witness:
  "authenticateToken verify0 plain_request
       = Respond \<lparr> status = 401, json = error_json ''Access token required'' \<rparr>
   \<and> authenticateToken verify0 (with_authorization ''Bearer'')
       = Respond \<lparr> status = 401, json = error_json ''Access token required'' \<rparr>
   \<and> authenticateToken verify0 (with_authorization ''Bearer  good'')
       = Respond \<lparr> status = 401, json = error_json ''Access token required'' \<rparr>
   \<and> route (authenticateToken verify0) (patch_api_todos sql_eq0)
        (with_authorization ''Bearer forged'') db_user1
       = \<lparr> response = \<lparr> status = 403, json = error_json ''Invalid or expired token'' \<rparr>,
           store = db_user1, issued = [] \<rparr>
   \<and> authenticateToken verify0 (with_authorization ''Bearer good'')
       = Next (with_authorization ''Bearer good'' \<lparr> req_user := identity 2 \<rparr>)
   \<and> route (authenticateToken verify0) (patch_api_todos sql_eq0)
        (with_authorization ''Bearer good'') db_user1
       = patch_api_todos sql_eq0
           (with_authorization ''Bearer good'' \<lparr> req_user := identity 2 \<rparr>) db_user1
   \<and> authenticateToken verify0 (with_authorization ''Basic good'')
       = Next (with_authorization ''Basic good'' \<lparr> req_user := identity 2 \<rparr>)"
proof -
  have hd: "map_of (req_headers (with_authorization x)) (u16 ''authorization'') = Some (u16 x)" for x
    by (simp add: with_authorization_def patch_by_def plain_request_def)
  have h0: "map_of (req_headers plain_request) (u16 ''authorization'') = None"
    by (simp add: plain_request_def)
  have h1: "map_of (req_headers (with_authorization ''Bearer'')) (u16 ''authorization'')
      = Some (u16 ''Bearer'') \<and> 0x20 \<notin> set (u16 ''Bearer'')"
    by (simp add: hd) (simp add: u16_def)
  have h2: "map_of (req_headers (with_authorization ''Bearer  good'')) (u16 ''authorization'')
      = Some (u16 ''Bearer'' @ 0x20 # u16 '' good'')
      \<and> 0x20 \<notin> set (u16 ''Bearer'') \<and> (u16 '' good'' = [] \<or> hd (u16 '' good'') = 0x20)"
    by (simp add: hd) (simp add: u16_def)
  have h3: "map_of (req_headers (with_authorization ''Bearer forged'')) (u16 ''authorization'')
      = Some (u16 ''Bearer'' @ 0x20 # u16 ''forged'' @ [])
      \<and> 0x20 \<notin> set (u16 ''Bearer'') \<and> u16 ''forged'' \<noteq> [] \<and> 0x20 \<notin> set (u16 ''forged'')
      \<and> ([] = ([] :: jsstring) \<or> hd ([] :: jsstring) = 0x20) \<and> verify0 (u16 ''forged'') = None"
    by (simp add: hd) (simp add: u16_def verify0_def)
  have h4: "map_of (req_headers (with_authorization ''Bearer good'')) (u16 ''authorization'')
      = Some (u16 ''Bearer'' @ 0x20 # u16 ''good'' @ [])
      \<and> 0x20 \<notin> set (u16 ''Bearer'') \<and> u16 ''good'' \<noteq> [] \<and> 0x20 \<notin> set (u16 ''good'')
      \<and> ([] = ([] :: jsstring) \<or> hd ([] :: jsstring) = 0x20)
      \<and> verify0 (u16 ''good'') = Some (identity 2)"
    by (simp add: hd) (simp add: u16_def verify0_def)
  have h5: "map_of (req_headers (with_authorization ''Basic good'')) (u16 ''authorization'')
      = Some (u16 ''Basic'' @ 0x20 # u16 ''good'' @ [])
      \<and> 0x20 \<notin> set (u16 ''Basic'') \<and> u16 ''good'' \<noteq> [] \<and> 0x20 \<notin> set (u16 ''good'')
      \<and> ([] = ([] :: jsstring) \<or> hd ([] :: jsstring) = 0x20)
      \<and> verify0 (u16 ''good'') = Some (identity 2)"
    by (simp add: hd) (simp add: u16_def verify0_def)
  have c0: "authenticateToken verify0 plain_request
       = Respond \<lparr> status = 401, json = error_json ''Access token required'' \<rparr>"
    using authenticateToken_by_header[where req = plain_request and verify = verify0] h0
    by blast
  have c1: "authenticateToken verify0 (with_authorization ''Bearer'')
       = Respond \<lparr> status = 401, json = error_json ''Access token required'' \<rparr>"
    using authenticateToken_by_header[where req = "with_authorization ''Bearer''"
        and h = "u16 ''Bearer''" and verify = verify0] h1
    by blast
  have c2: "authenticateToken verify0 (with_authorization ''Bearer  good'')
       = Respond \<lparr> status = 401, json = error_json ''Access token required'' \<rparr>"
    using authenticateToken_by_header[where req = "with_authorization ''Bearer  good''"
        and a = "u16 ''Bearer''" and rest = "u16 '' good''" and verify = verify0] h2
    by blast
  have c3: "route (authenticateToken verify0) (patch_api_todos sql_eq0)
        (with_authorization ''Bearer forged'') db_user1
       = \<lparr> response = \<lparr> status = 403, json = error_json ''Invalid or expired token'' \<rparr>,
           store = db_user1, issued = [] \<rparr>"
    using authenticateToken_by_header[where req = "with_authorization ''Bearer forged''"
        and a = "u16 ''Bearer''" and token = "u16 ''forged''" and rest = "[]"
        and verify = verify0 and handler = "patch_api_todos sql_eq0" and d = db_user1] h3
    by blast
  have c4: "authenticateToken verify0 (with_authorization ''Bearer good'')
       = Next (with_authorization ''Bearer good'' \<lparr> req_user := identity 2 \<rparr>)
     \<and> route (authenticateToken verify0) (patch_api_todos sql_eq0)
        (with_authorization ''Bearer good'') db_user1
       = patch_api_todos sql_eq0
           (with_authorization ''Bearer good'' \<lparr> req_user := identity 2 \<rparr>) db_user1"
    using authenticateToken_by_header[where req = "with_authorization ''Bearer good''"
        and a = "u16 ''Bearer''" and token = "u16 ''good''" and rest = "[]"
        and verify = verify0 and handler = "patch_api_todos sql_eq0" and d = db_user1
        and user = "identity 2"] h4
    by blast
  have c5: "authenticateToken verify0 (with_authorization ''Basic good'')
       = Next (with_authorization ''Basic good'' \<lparr> req_user := identity 2 \<rparr>)"
    using authenticateToken_by_header[where req = "with_authorization ''Basic good''"
        and a = "u16 ''Basic''" and token = "u16 ''good''" and rest = "[]"
        and verify = verify0 and user = "identity 2"] h5
    by blast
  show ?thesis using c0 c1 c2 c3 c4 c5 by simp
qed

subsection \<open>Sparse todo patches (C7)\<close>

lemma get_prop_undefined: "\<not> has_key data k \<Longrightarrow> get_prop data k = JUndefined"
  by (cases data)
     (auto simp: has_key_def get_prop_def lookup_def map_of_eq_None_iff[THEN iffD2]
           split: option.splits)

text \<open>
  The four guarded keys behave as C7 says: the result has one only if the body has it.
\<close>

lemma input_todo_optional_keys:
  assumes "input_todo rt data = Inr out"
    and "k \<in> {''description'', ''priority'', ''due_date'', ''completed''}"
    and "has_key out k"
  shows "has_key data k"
proof (rule ccontr)
  assume "\<not> has_key data k"
  then have u: "get_prop data k = JUndefined" by (rule get_prop_undefined)
  have n: "\<not> nullish data"
    using assms(1) by (auto simp: input_todo_def split: if_splits)
  have "out = obj
        ([(''title'', JStr (truncate_str (get_prop data ''title'') 255))]
         @ (if get_prop data ''description'' \<noteq> JUndefined
            then [(''description'', JStr (truncate_str (get_prop data ''description'') 1000))]
            else [])
         @ (if get_prop data ''priority'' \<noteq> JUndefined
            then [(''priority'',
                   if js_includes [''low'', ''medium'', ''high''] (get_prop data ''priority'')
                   then get_prop data ''priority'' else JStr (u16 ''medium''))]
            else [])
         @ (if get_prop data ''due_date'' \<noteq> JUndefined
            then [(''due_date'', get_prop data ''due_date'')]
            else [])
         @ (if get_prop data ''completed'' \<noteq> JUndefined
            then [(''completed'', JBool (toBool rt (get_prop data ''completed'')))]
            else []))"
    using assms(1) n by (simp add: input_todo_def)
  then show False
    using assms(2,3) u by (auto simp: has_key_def obj_def u16_def split: if_splits)
qed

text \<open>
  C7 (the code departs from it). \<open>title\<close> is not guarded: for the patch body
  \<^verbatim>\<open>{completed: true}\<close> the shaper returns \<^verbatim>\<open>{title: "", completed: true}\<close>, a \<open>title\<close>
  the caller did not send, and the example PATCH route then sets the column \<open>title\<close>
  to the empty string.
\<close>

theorem input_todo_adds_title:
  "input_todo rt (obj [(''completed'', JBool True)])
     = Inr (obj [(''title'', JStr []), (''completed'', JBool True)])
   \<and> \<not> has_key (obj [(''completed'', JBool True)]) ''title''
   \<and> has_key (obj [(''title'', JStr []), (''completed'', JBool True)]) ''title''
   \<and> example_patch_updates rt [(u16 ''completed'', JBool True)]
       = Inr [(u16 ''title'', JStr []), (u16 ''completed'', JNum (Fin 1))]"
  by (simp add: example_patch_updates_def input_todo_def str_eval toBool_def js_eval)

subsection \<open>Optional fields of the output shapers (C8)\<close>

text \<open>
  C8, as stated, fails: a gallery row whose \<open>thumbnail_url\<close> is null is shaped with
  \<open>thumbnail_url\<close> equal to its \<open>image_url\<close>, not null.
\<close>

theorem galleryImage_thumbnail_fallback:
  "get_prop image_row ''thumbnail_url'' = JNull
   \<and> get_prop (output_galleryImage rt0 image_row) ''thumbnail_url''
       = JStr (u16 ''/uploads/a.png'')
   \<and> get_prop (output_galleryImage rt0 image_row) ''thumbnail_url'' \<noteq> JNull"
  by (simp add: output_galleryImage_def image_row_def js_eval)

text \<open>
  C8, amended. For every record that is not falsy, each field a shaper writes as
  \<^verbatim>\<open>x || null\<close> (the user's avatar; the todo's description; the timeline event's meta
  and description; the gallery image's label and description; the song's artist, tag,
  url and duration) is null in the output when it is missing or falsy in the record.
  The gallery image's \<open>thumbnail_url\<close> is not one of them: when missing or falsy it
  falls back to the record's \<open>image_url\<close>.
\<close>

theorem output_optional_fields:
  assumes "truthy r"
  shows "(\<not> truthy (get_prop r ''avatar'') \<longrightarrow> get_prop (output_user rt r) ''avatar'' = JNull)
   \<and> (\<not> truthy (get_prop r ''description'')
        \<longrightarrow> get_prop (output_todo rt r) ''description'' = JNull)
   \<and> (\<not> truthy (get_prop r ''meta'') \<longrightarrow> get_prop (output_timelineEvent rt r) ''meta'' = JNull)
   \<and> (\<not> truthy (get_prop r ''description'')
        \<longrightarrow> get_prop (output_timelineEvent rt r) ''description'' = JNull)
   \<and> (\<not> truthy (get_prop r ''label'') \<longrightarrow> get_prop (output_galleryImage rt r) ''label'' = JNull)
   \<and> (\<not> truthy (get_prop r ''description'')
        \<longrightarrow> get_prop (output_galleryImage rt r) ''description'' = JNull)
   \<and> (\<not> truthy (get_prop r ''artist'') \<longrightarrow> get_prop (output_music rt r) ''artist'' = JNull)
   \<and> (\<not> truthy (get_prop r ''tag'') \<longrightarrow> get_prop (output_music rt r) ''tag'' = JNull)
   \<and> (\<not> truthy (get_prop r ''url'') \<longrightarrow> get_prop (output_music rt r) ''url'' = JNull)
   \<and> (\<not> truthy (get_prop r ''duration'') \<longrightarrow> get_prop (output_music rt r) ''duration'' = JNull)
   \<and> (\<not> truthy (get_prop r ''thumbnail_url'')
        \<longrightarrow> get_prop (output_galleryImage rt r) ''thumbnail_url'' = get_prop r ''image_url'')"
  using assms
  by (simp add: output_user_def output_todo_def output_timelineEvent_def
      output_galleryImage_def output_music_def js_or_def obj_def get_prop_def[of "JObj _"]
      lookup_def u16_def)

theorem output_optional_fields_witness:
  "truthy image_row
   \<and> get_prop (output_user rt0 image_row) ''avatar'' = JNull
   \<and> get_prop (output_todo rt0 image_row) ''description'' = JNull
   \<and> get_prop (output_timelineEvent rt0 image_row) ''meta'' = JNull
   \<and> get_prop (output_timelineEvent rt0 image_row) ''description'' = JNull
   \<and> get_prop (output_galleryImage rt0 image_row) ''label'' = JNull
   \<and> get_prop (output_galleryImage rt0 image_row) ''description'' = JNull
   \<and> get_prop (output_music rt0 image_row) ''artist'' = JNull
   \<and> get_prop (output_music rt0 image_row) ''tag'' = JNull
   \<and> get_prop (output_music rt0 image_row) ''url'' = JNull
   \<and> get_prop (output_music rt0 image_row) ''duration'' = JNull
   \<and> get_prop (output_galleryImage rt0 image_row) ''thumbnail_url'' = get_prop image_row ''image_url''"
proof -
  have t: "truthy image_row" by (simp add: image_row_def obj_def)
  have f: "\<not> truthy (get_prop image_row ''avatar'')" "\<not> truthy (get_prop image_row ''description'')"
    "\<not> truthy (get_prop image_row ''meta'')" "\<not> truthy (get_prop image_row ''label'')"
    "\<not> truthy (get_prop image_row ''artist'')" "\<not> truthy (get_prop image_row ''tag'')"
    "\<not> truthy (get_prop image_row ''url'')" "\<not> truthy (get_prop image_row ''duration'')"
    "\<not> truthy (get_prop image_row ''thumbnail_url'')"
    by (simp_all add: image_row_def js_eval)
  show ?thesis using output_optional_fields[OF t, of rt0] t f by simp
qed

subsection \<open>clamp (C9)\<close>

text \<open>
  C9 (the code departs from it). A value that is already a number skips \<open>toFloat\<close>,
  the only place where \<open>NaN\<close> is replaced, so \<^verbatim>\<open>clamp(NaN, 1, 100)\<close> is \<open>NaN\<close>, which
  is neither at least 1 nor at most 100. For every other value the claim holds
  (\<open>clamp_in_range\<close>, \<open>clamp_idempotent\<close>).
\<close>

theorem clamp_NaN_escapes:
  "num_le (Fin 1) (Fin 100) \<and> clamp rt (JNum NaN) (Fin 1) (Fin 100) = NaN
   \<and> \<not> num_le (Fin 1) (clamp rt (JNum NaN) (Fin 1) (Fin 100))
   \<and> \<not> num_le (clamp rt (JNum NaN) (Fin 1) (Fin 100)) (Fin 100)"
  by (simp add: clamp_def Math_max_def Math_min_def)

subsection \<open>Shaping a missing record (C10)\<close>

text \<open>
  C10. Each of the six entity output shapers returns null for a falsy record
  (undefined, null, false, 0, NaN, the empty string); being total functions, they
  neither throw nor build an object there.
\<close>

theorem output_null_record:
  "\<not> truthy r \<Longrightarrow>
     output_user rt r = JNull \<and> output_wish rt r = JNull \<and> output_todo rt r = JNull
     \<and> output_timelineEvent rt r = JNull \<and> output_galleryImage rt r = JNull
     \<and> output_music rt r = JNull"
  by (simp add: output_user_def output_wish_def output_todo_def output_timelineEvent_def
      output_galleryImage_def output_music_def)

theorem output_null_record_witness:
  "\<not> truthy JUndefined
   \<and> output_user rt0 JUndefined = JNull \<and> output_wish rt0 JUndefined = JNull
   \<and> output_todo rt0 JUndefined = JNull \<and> output_timelineEvent rt0 JUndefined = JNull
   \<and> output_galleryImage rt0 JUndefined = JNull \<and> output_music rt0 JUndefined = JNull
   \<and> output_user rt0 JNull = JNull \<and> output_music rt0 (JNum (Fin 0)) = JNull
   \<and> output_todo rt0 (JStr []) = JNull \<and> output_wish rt0 (JBool False) = JNull"
  using output_null_record[of JUndefined rt0] output_null_record[of JNull rt0]
    output_null_record[of "JNum (Fin 0)" rt0] output_null_record[of "JStr []" rt0]
    output_null_record[of "JBool False" rt0]
  by simp

end
